theory Spec2Isabelle
  imports Complex_Main "HOL-Library.Word"
begin

section \<open>JavaScript strings\<close>

text \<open>
  A JavaScript string is a sequence of UTF-16 code units. The literals of the two source
  files are written out as code units, since the messages of the search screen are not
  ASCII.
\<close>

type_synonym jsstring = "16 word list"

definition is_white :: "16 word \<Rightarrow> bool" where
  \<comment> \<open>WhiteSpace and LineTerminator of ECMAScript, the code units \<open>String.prototype.trim\<close> strips\<close>
  "is_white c =
     (c = 0x0009 \<or> c = 0x000A \<or> c = 0x000B \<or> c = 0x000C \<or> c = 0x000D \<or> c = 0x0020 \<or>
      c = 0x00A0 \<or> c = 0x1680 \<or> (0x2000 \<le> c \<and> c \<le> 0x200A) \<or> c = 0x2028 \<or>
      c = 0x2029 \<or> c = 0x202F \<or> c = 0x205F \<or> c = 0x3000 \<or> c = 0xFEFF)"

definition trim :: "jsstring \<Rightarrow> jsstring" where
  "trim s = rev (dropWhile is_white (rev (dropWhile is_white s)))"

definition truthy :: "jsstring \<Rightarrow> bool" where
  \<comment> \<open>a string is truthy exactly when it is not empty\<close>
  "truthy s = (s \<noteq> [])"

definition split_first :: "16 word \<Rightarrow> jsstring \<Rightarrow> jsstring" where
  \<comment> \<open>\<open>s.split(sep)[0]\<close> for a separator of one code unit\<close>
  "split_first sep s = takeWhile (\<lambda>c. c \<noteq> sep) s"

definition DEBOUNCE_DELAY :: nat where
  "DEBOUNCE_DELAY = 500"

definition page_search :: jsstring where
  \<comment> \<open>\<open>'search'\<close>\<close>
  "page_search = [0x0073, 0x0065, 0x0061, 0x0072, 0x0063, 0x0068]"

definition msg_no_results :: jsstring where
  \<comment> \<open>the literal passed to \<open>setError\<close> at line 105 of search.tsx\<close>
  "msg_no_results = [0x6CA1, 0x6709, 0x627E, 0x5230, 0x76F8, 0x5173, 0x5185, 0x5BB9]"

definition msg_search_failed :: jsstring where
  \<comment> \<open>the literal passed to \<open>setError\<close> at line 109 of search.tsx\<close>
  "msg_search_failed =
     [0x641C, 0x7D22, 0x5931, 0x8D25, 0xFF0C, 0x8BF7, 0x7A0D, 0x540E, 0x91CD, 0x8BD5, 0x3002]"

definition msg_type_to_search :: jsstring where
  \<comment> \<open>the \<open>emptyMessage\<close> the search screen passes at line 196 of search.tsx\<close>
  "msg_type_to_search =
     [0x8F93, 0x5165, 0x5173, 0x952E, 0x8BCD, 0x5F00, 0x59CB, 0x641C, 0x7D22]"

definition msg_no_content :: jsstring where
  \<comment> \<open>the default \<open>emptyMessage\<close> of CustomScrollView\<close>
  "msg_no_content = [0x6682, 0x65E0, 0x5185, 0x5BB9]"

definition device_tv :: jsstring where
  \<comment> \<open>\<open>'tv'\<close>\<close>
  "device_tv = [0x0074, 0x0076]"


section \<open>The render of the search screen (src/app/search.tsx)\<close>

text \<open>
  \<open>SearchScreen\<close> is a function React calls at every render. Its statements are listed
  below in source order, each with the identifiers it evaluates then (an identifier inside
  a closure is evaluated when the closure runs, not at the render) and the names it
  declares. An identifier resolves when the statement that declares it has run, or when
  the module scope holds it: the imports of lines 1 to 21 and the constants of the module.
  A name of the function that is declared further down is in its temporal dead zone;
  reading it throws, unless the build has turned \<open>const\<close> into \<open>var\<close>, in which case
  it reads as \<open>undefined\<close>. Any other identifier that does not resolve throws.
\<close>

datatype js_error = ReferenceError string | HooksOrderError

datatype stmt = Stmt nat "string list" "string list"

definition module_scope :: "string list" where
  \<comment> \<open>lines 1 to 26 and 222 of search.tsx; \<open>useCallback\<close> is not among the imports\<close>
  "module_scope =
     [''React'', ''useState'', ''useRef'', ''useEffect'',
      ''View'', ''TextInput'', ''StyleSheet'', ''Alert'', ''Keyboard'', ''TouchableOpacity'',
      ''ThemedView'', ''ThemedText'', ''VideoCard'', ''VideoLoadingAnimation'', ''api'',
      ''Search'', ''QrCode'', ''StyledButton'', ''useRemoteControlStore'',
      ''RemoteControlModal'', ''useSettingsStore'', ''useRouter'', ''Colors'',
      ''CustomScrollView'', ''useResponsiveLayout'', ''getCommonResponsiveStyles'',
      ''ResponsiveNavigation'', ''ResponsiveHeader'', ''DeviceUtils'', ''Logger'',
      ''logger'', ''DEBOUNCE_DELAY'', ''createResponsiveStyles'']"

definition SearchScreen_body :: "stmt list" where
  \<comment> \<open>lines 29 to 219 of search.tsx; the statement of line 203 calls
      \<open>renderSearchContent\<close> and so evaluates the identifiers of lines 152 to 199\<close>
  "SearchScreen_body =
     [Stmt 29 [''useState''] [''keyword'', ''setKeyword''],
      Stmt 30 [''useState''] [''results'', ''setResults''],
      Stmt 31 [''useState''] [''loading'', ''setLoading''],
      Stmt 32 [''useState''] [''error'', ''setError''],
      Stmt 33 [''useRef''] [''textInputRef''],
      Stmt 34 [''useRef''] [''debounceTimer''],
      Stmt 35 [''useState''] [''isInputFocused'', ''setIsInputFocused''],
      Stmt 36 [''useRemoteControlStore'']
        [''showRemoteModal'', ''lastMessage'', ''targetPage'', ''clearMessage''],
      Stmt 37 [''useSettingsStore''] [''remoteInputEnabled''],
      Stmt 38 [''useRouter''] [''router''],
      Stmt 41 [''useResponsiveLayout''] [''responsiveConfig''],
      Stmt 42 [''getCommonResponsiveStyles'', ''responsiveConfig''] [''commonStyles''],
      Stmt 44 [''responsiveConfig''] [''deviceType'', ''spacing''],
      Stmt 46 [''useEffect'', ''keyword'', ''handleSearch''] [],
      Stmt 72 [''useEffect'', ''lastMessage'', ''targetPage''] [],
      Stmt 90 [''useCallback'', ''keyword''] [''handleSearch''],
      Stmt 116 [] [''onSearchPress''],
      Stmt 124 [] [''handleQrPress''],
      Stmt 135 [] [''renderItem''],
      Stmt 148 [''createResponsiveStyles'', ''deviceType'', ''spacing''] [''dynamicStyles''],
      Stmt 150 [] [''renderSearchContent''],
      Stmt 203
        [''ThemedView'', ''commonStyles'', ''dynamicStyles'', ''renderSearchContent'',
         ''View'', ''TouchableOpacity'', ''isInputFocused'', ''Colors'', ''TextInput'',
         ''textInputRef'', ''keyword'', ''setKeyword'', ''onSearchPress'', ''StyledButton'',
         ''Search'', ''deviceType'', ''QrCode'', ''handleQrPress'', ''error'', ''ThemedText'',
         ''CustomScrollView'', ''results'', ''renderItem'', ''loading'',
         ''RemoteControlModal'']
        [''content''],
      Stmt 210 [''deviceType'', ''content'', ''ResponsiveNavigation'', ''ResponsiveHeader''] []]"

fun declared :: "stmt list \<Rightarrow> string list" where
  "declared [] = []"
| "declared (Stmt l rs ds # rest) = ds @ declared rest"

fun unresolved :: "bool \<Rightarrow> string list \<Rightarrow> string list \<Rightarrow> string list \<Rightarrow> string list
    \<Rightarrow> js_error option" where
  \<comment> \<open>the first identifier of \<open>rs\<close> that throws: \<open>inits\<close> are the names declared so
      far, \<open>later\<close> the names declared by this statement and those below it\<close>
  "unresolved tdz scope inits later [] = None"
| "unresolved tdz scope inits later (n # rs) =
     (if n \<in> set inits then unresolved tdz scope inits later rs
      else if n \<in> set later
        then (if tdz then Some (ReferenceError n) else unresolved tdz scope inits later rs)
      else if n \<in> set scope then unresolved tdz scope inits later rs
      else Some (ReferenceError n))"

fun exec :: "bool \<Rightarrow> string list \<Rightarrow> string list \<Rightarrow> stmt list \<Rightarrow> js_error + unit" where
  "exec tdz scope inits [] = Inr ()"
| "exec tdz scope inits (Stmt l rs ds # rest) =
     (case unresolved tdz scope inits (ds @ declared rest) rs of
        Some e \<Rightarrow> Inl e
      | None \<Rightarrow> exec tdz scope (inits @ ds) rest)"

definition SearchScreen_render :: "bool \<Rightarrow> js_error + unit" where
  \<comment> \<open>one render of the component as the file has it; \<open>tdz\<close> says whether the build keeps
      the temporal dead zone of \<open>const\<close>\<close>
  "SearchScreen_render tdz = exec tdz module_scope [] SearchScreen_body"


section \<open>The callbacks of the search screen (src/app/search.tsx)\<close>

text \<open>
  What the callbacks of the component do when they run: the bodies of its two effects, of
  \<open>handleSearch\<close> (before and after its \<open>await\<close>) and of \<open>onSearchPress\<close>, as state
  transformers. The state is the React state (\<open>keyword\<close>, \<open>results\<close>, \<open>loading\<close>,
  \<open>error\<close>), the ref \<open>debounceTimer\<close>, the two fields of the remote-control store the
  component reads, and the environment the callbacks act on: the clock, the pending
  timeouts, the pending calls of \<open>api.searchVideos\<close> and the trace of the effects on the
  collaborators. A timeout is its handle, the time it is due and the keyword its callback
  has captured; a pending call is its number and its term. Time is a clock in
  milliseconds; a timeout runs once the clock has reached the time it is due.

  The callbacks run only in a component that has rendered. \<open>first_commit\<close>, \<open>setKeyword\<close>,
  \<open>step\<close> and \<open>run\<close> below say what React does with them when every render completes:
  the body of an effect runs after the first render and after every render in which one
  of its dependencies has changed, the cleanup of its previous run first, and setting a
  state to the value it has does not render. Whether the render of the file completes is
  \<open>SearchScreen_render\<close>, and \<open>mount\<close> and \<open>launch\<close> put the two together: they are
  the component as the file has it.
\<close>

datatype effect =
    KeyboardDismiss
  | ApiSearch jsstring
  | LogInfoSearchFailed jsstring
  | LogDebugRemoteInput jsstring
  | ClearMessage

datatype 'r response = Resolved "'r list" | Rejected jsstring

record 'r screen =
  keyword :: jsstring
  results :: "'r list"
  loading :: bool
  error :: "jsstring option"
  debounceTimer :: "nat option"
  lastMessage :: "jsstring option"
  targetPage :: "jsstring option"
  now :: nat
  last_timer :: nat
  timers :: "(nat \<times> nat \<times> jsstring) list"
  last_request :: nat
  inflight :: "(nat \<times> jsstring) list"
  trace :: "effect list"

definition setTimeout :: "jsstring \<Rightarrow> nat \<Rightarrow> 'r screen \<Rightarrow> nat \<times> 'r screen" where
  \<comment> \<open>a fresh positive handle; the callback is \<open>handleSearch(k)\<close> for the captured \<open>k\<close>\<close>
  "setTimeout k delay s =
     (let h = Suc (last_timer s)
      in (h, s\<lparr>last_timer := h, timers := timers s @ [(h, now s + delay, k)]\<rparr>))"

definition clearTimeout :: "nat \<Rightarrow> 'r screen \<Rightarrow> 'r screen" where
  "clearTimeout h s = s\<lparr>timers := filter (\<lambda>(i, due, k). i \<noteq> h) (timers s)\<rparr>"

definition clear_debounce :: "'r screen \<Rightarrow> 'r screen" where
  \<comment> \<open>\<open>if (debounceTimer.current) clearTimeout(debounceTimer.current)\<close>; the handle 0 is falsy\<close>
  "clear_debounce s =
     (case debounceTimer s of
        None \<Rightarrow> s
      | Some h \<Rightarrow> if h \<noteq> 0 then clearTimeout h s else s)"

definition handleSearch :: "jsstring \<Rightarrow> jsstring option \<Rightarrow> 'r screen \<Rightarrow> 'r screen" where
  \<comment> \<open>the part of \<open>handleSearch\<close> before the \<open>await\<close>; \<open>kw\<close> is the keyword of its closure\<close>
  "handleSearch kw searchText s =
     (let term = (case searchText of Some t \<Rightarrow> t | None \<Rightarrow> kw)
      in if \<not> truthy (trim term)
         then s\<lparr>trace := trace s @ [KeyboardDismiss], loading := False\<rparr>
         else let r = Suc (last_request s)
              in s\<lparr>trace := trace s @ [KeyboardDismiss, ApiSearch term],
                   error := None,
                   last_request := r,
                   inflight := inflight s @ [(r, term)]\<rparr>)"

definition settle :: "'r response \<Rightarrow> 'r screen \<Rightarrow> 'r screen" where
  \<comment> \<open>the part of \<open>handleSearch\<close> after the \<open>await\<close>: try, catch, finally\<close>
  "settle resp s =
     (let s' = (case resp of
                  Resolved rs \<Rightarrow>
                    if length rs > 0 then s\<lparr>results := rs\<rparr>
                    else s\<lparr>error := Some msg_no_results, results := []\<rparr>
                | Rejected err \<Rightarrow>
                    s\<lparr>error := Some msg_search_failed,
                      trace := trace s @ [LogInfoSearchFailed err]\<rparr>)
      in s'\<lparr>loading := False\<rparr>)"

definition resolve :: "nat \<Rightarrow> 'r response \<Rightarrow> 'r screen \<Rightarrow> 'r screen" where
  \<comment> \<open>the pending call \<open>r\<close> settles with \<open>resp\<close>; a call that is not pending cannot settle\<close>
  "resolve r resp s =
     (case map_of (inflight s) r of
        None \<Rightarrow> s
      | Some term \<Rightarrow> settle resp (s\<lparr>inflight := filter (\<lambda>(i, t). i \<noteq> r) (inflight s)\<rparr>))"

definition keyword_effect :: "'r screen \<Rightarrow> 'r screen" where
  \<comment> \<open>the body of the effect on \<open>[keyword, handleSearch]\<close>, lines 46 to 63\<close>
  "keyword_effect s =
     (let s1 = clear_debounce s
      in if truthy (trim (keyword s1))
         then let s2 = s1\<lparr>loading := True, error := None\<rparr>;
                  (h, s3) = setTimeout (keyword s2) DEBOUNCE_DELAY s2
              in s3\<lparr>debounceTimer := Some h\<rparr>
         else s1\<lparr>results := [], error := None, loading := False\<rparr>)"

definition keyword_cleanup :: "'r screen \<Rightarrow> 'r screen" where
  \<comment> \<open>the function the effect returns, lines 65 to 69\<close>
  "keyword_cleanup s = clear_debounce s"

definition setKeyword :: "jsstring \<Rightarrow> 'r screen \<Rightarrow> 'r screen" where
  \<comment> \<open>what follows \<open>setKeyword(t)\<close> when the render it asks for completes: React
      skips the render when the state is set to the value it has; otherwise the cleanup of
      the effect and then its body run, its dependencies having changed\<close>
  "setKeyword t s =
     (if t = keyword s then s else keyword_effect (keyword_cleanup (s\<lparr>keyword := t\<rparr>)))"

definition clearMessage :: "'r screen \<Rightarrow> 'r screen" where
  \<comment> \<open>Modelled from the spec: \<open>clearMessage\<close> of the remote-control store
      (stores/remoteControlStore), which acknowledges the last message so that it is not
      processed again\<close>
  "clearMessage s = s\<lparr>lastMessage := None, trace := trace s @ [ClearMessage]\<rparr>"

definition remote_effect :: "'r screen \<Rightarrow> 'r screen" where
  \<comment> \<open>the body of the effect on \<open>[lastMessage, targetPage]\<close>, lines 72 to 80; the
      keyword set at line 76 takes effect at the next render, after \<open>clearMessage\<close>\<close>
  "remote_effect s =
     (case lastMessage s of
        None \<Rightarrow> s
      | Some m \<Rightarrow>
          if truthy m \<and> targetPage s = Some page_search
          then let s1 = s\<lparr>trace := trace s @ [LogDebugRemoteInput m]\<rparr>;
                   realMessage = split_first 0x005F m
               in setKeyword realMessage (clearMessage s1)
          else s)"

definition store_update :: "jsstring option \<Rightarrow> jsstring option \<Rightarrow> 'r screen \<Rightarrow> 'r screen" where
  \<comment> \<open>the store publishes a message and its target page; the effect runs when one of its
      two dependencies has changed\<close>
  "store_update m p s =
     (if lastMessage s = m \<and> targetPage s = p then s
      else remote_effect (s\<lparr>lastMessage := m, targetPage := p\<rparr>))"

definition onSearchPress :: "'r screen \<Rightarrow> 'r screen" where
  "onSearchPress s = handleSearch (keyword s) (Some (keyword s)) (clear_debounce s)"

definition is_due :: "nat \<Rightarrow> nat \<times> nat \<times> jsstring \<Rightarrow> bool" where
  "is_due t x = (case x of (h, due, k) \<Rightarrow> due \<le> t)"

definition elapse :: "nat \<Rightarrow> 'r screen \<Rightarrow> 'r screen" where
  \<comment> \<open>\<open>d\<close> milliseconds pass with no other event: the timeouts that come due run, oldest
      first, each calling \<open>handleSearch\<close> with the keyword it captured\<close>
  "elapse d s =
     (let t = now s + d;
          due = filter (is_due t) (timers s);
          s' = s\<lparr>now := t, timers := filter (\<lambda>x. \<not> is_due t x) (timers s)\<rparr>
      in foldl (\<lambda>a x. case x of (h, t', k) \<Rightarrow> handleSearch k (Some k) a) s' due)"

definition first_commit :: "jsstring option \<Rightarrow> jsstring option \<Rightarrow> 'r screen" where
  \<comment> \<open>the state after a first render that completes, with the store as it is then, and
      the two effects after it\<close>
  "first_commit m p =
     remote_effect (keyword_effect
       \<lparr>keyword = [], results = [], loading = False, error = None, debounceTimer = None,
        lastMessage = m, targetPage = p, now = 0, last_timer = 0, timers = [],
        last_request = 0, inflight = [], trace = []\<rparr>)"

datatype 'r event =
    ChangeText jsstring
  | SearchPress
  | Elapse nat
  | Settle nat "'r response"
  | StoreUpdate "jsstring option" "jsstring option"

fun step :: "'r event \<Rightarrow> 'r screen \<Rightarrow> 'r screen" where
  "step (ChangeText t) s = setKeyword t s"
| "step SearchPress s = onSearchPress s"
| "step (Elapse d) s = elapse d s"
| "step (Settle r resp) s = resolve r resp s"
| "step (StoreUpdate m p) s = store_update m p s"

definition run :: "'r event list \<Rightarrow> 'r screen \<Rightarrow> 'r screen" where
  "run evs s = foldl (\<lambda>a e. step e a) s evs"

definition api_calls :: "'r screen \<Rightarrow> jsstring list" where
  \<comment> \<open>the terms \<open>api.searchVideos\<close> has been called with, in order\<close>
  "api_calls s = concat (map (\<lambda>e. case e of ApiSearch t \<Rightarrow> [t] | _ \<Rightarrow> []) (trace s))"

definition mount :: "bool \<Rightarrow> jsstring option \<Rightarrow> jsstring option \<Rightarrow> js_error + 'r screen" where
  \<comment> \<open>mounting the component as the file has it: the first render, and the first commit
      if the render returns\<close>
  "mount tdz m p =
     (case SearchScreen_render tdz of
        Inl e \<Rightarrow> Inl e
      | Inr u \<Rightarrow> Inr (first_commit m p))"

definition launch :: "bool \<Rightarrow> 'r event list \<Rightarrow> jsstring option \<Rightarrow> jsstring option
    \<Rightarrow> js_error + 'r screen" where
  \<comment> \<open>the component as the file has it, mounted and then given the events: a component
      whose render has thrown is not on the screen and handles none of them\<close>
  "launch tdz evs m p =
     (case mount tdz m p of
        Inl e \<Rightarrow> Inl e
      | Inr s \<Rightarrow> Inr (run evs s))"

definition calls_made :: "js_error + 'r screen \<Rightarrow> jsstring list" where
  \<comment> \<open>the remote calls made by a component that may have thrown\<close>
  "calls_made x = (case x of Inl e \<Rightarrow> [] | Inr s \<Rightarrow> api_calls s)"


section \<open>The scroll view (src/components/CustomScrollView.tsx)\<close>

text \<open>
  The props the claims read, with \<open>None\<close> for a prop that is left out; for \<open>error\<close>,
  \<open>None\<close> is also \<open>null\<close>, the default of the prop. The responsive layout is a
  collaborator: the component reads its device type and its column count.
\<close>

record 'a props =
  data :: "'a list"
  numColumns :: "nat option"
  loading_prop :: "bool option"
  loadingMore :: "bool option"
  error_prop :: "jsstring option"
  emptyMessage :: "jsstring option"
  ListFooterComponent :: bool

record layout =
  deviceType :: jsstring
  columns :: nat

datatype scroll_effect = ScrollToOffset real bool | FocusFirstCard

definition error_truthy :: "'a props \<Rightarrow> bool" where
  \<comment> \<open>the test \<open>if (error)\<close> of line 77\<close>
  "error_truthy p = (case error_prop p of None \<Rightarrow> False | Some e \<Rightarrow> truthy e)"

definition hooks_called :: "'a props \<Rightarrow> string list" where
  \<comment> \<open>the hooks one call of the function runs, in order: those of lines 34 to 68, and
      the \<open>useCallback\<close> of line 88 unless the function has returned at line 77\<close>
  "hooks_called p =
     [''useRef'', ''useRef'', ''useState'', ''useResponsiveLayout'', ''useEffect'',
      ''useCallback'', ''useCallback''] @
     (if error_truthy p then [] else [''useCallback''])"

text \<open>
  The state of a mounted instance: \<open>showScrollToTop\<close>; whether its two refs are attached
  (the list, and the card of index 0, which the list mounts and unmounts as it
  virtualizes); the hooks its last render ran (\<open>None\<close> before the first render); its
  clock, the times its focus timeouts are due and the calls it has made on the list and on
  the first card. The list is a collaborator: \<open>animation_ms\<close> is how long it takes over
  an animated scroll, which the component neither sets nor reads, and \<open>animation_end\<close>
  is when the scroll it is animating ends.
\<close>

record scroll =
  showScrollToTop :: bool
  listRef :: bool
  firstCardRef :: bool
  hooks :: "string list option"
  clock :: nat
  focus_timers :: "nat list"
  calls :: "scroll_effect list"
  animation_ms :: nat
  animation_end :: "nat option"


definition scrollToTop :: "scroll \<Rightarrow> scroll" where
  \<comment> \<open>\<open>listRef.current?.scrollToOffset({ offset: 0, animated: true })\<close>, then the timeout
      of 500 milliseconds\<close>
  "scrollToTop s =
     (let s1 = (if listRef s
                then s\<lparr>calls := calls s @ [ScrollToOffset 0 True],
                       animation_end := Some (clock s + animation_ms s)\<rparr>
                else s)
      in s1\<lparr>focus_timers := focus_timers s1 @ [clock s1 + 500]\<rparr>)"



definition hardwareBackPress :: "layout \<Rightarrow> scroll \<Rightarrow> bool \<times> scroll" where
  \<comment> \<open>the listener exists on a TV only; the flag is whether the default action is blocked\<close>
  "hardwareBackPress cfg s =
     (if deviceType cfg = device_tv
      then (if showScrollToTop s then (True, scrollToTop s) else (False, s))
      else (False, s))"

datatype empty_component = ActivityIndicator | CenterText jsstring

datatype footer = GivenFooter | FooterIndicator | NoFooter

datatype 'a view =
    is_ErrorView: ErrorView jsstring
  | ListView (list_data: "'a list") (list_columns: nat) (list_empty: empty_component)
      (list_footer: footer) (scroll_button: bool)

definition returned_view :: "layout \<Rightarrow> 'a props \<Rightarrow> scroll \<Rightarrow> 'a view" where
  \<comment> \<open>what the function returns: the error view of lines 77 to 85, or the list of lines
      127 to 168\<close>
  "returned_view cfg p s =
     (let loading = (case loading_prop p of Some b \<Rightarrow> b | None \<Rightarrow> False);
          loadingMore = (case loadingMore p of Some b \<Rightarrow> b | None \<Rightarrow> False);
          emptyMessage = (case emptyMessage p of Some m \<Rightarrow> m | None \<Rightarrow> msg_no_content);
          effectiveColumns =
            (case numColumns p of Some n \<Rightarrow> if n \<noteq> 0 then n else columns cfg
             | None \<Rightarrow> columns cfg);
          list = ListView (data p) effectiveColumns
                   (if loading then ActivityIndicator else CenterText emptyMessage)
                   (if ListFooterComponent p then GivenFooter
                    else if loadingMore then FooterIndicator else NoFooter)
                   (deviceType cfg \<noteq> device_tv \<and> showScrollToTop s)
      in case error_prop p of
           None \<Rightarrow> list
         | Some e \<Rightarrow> if truthy e then ErrorView e else list)"

definition CustomScrollView :: "layout \<Rightarrow> 'a props \<Rightarrow> scroll \<Rightarrow> js_error + 'a view" where
  \<comment> \<open>one render of an instance: React throws when the function does not run the hooks
      its last render ran, and the return of line 77 comes before the hook of line 88\<close>
  "CustomScrollView cfg p s =
     (case hooks s of
        None \<Rightarrow> Inr (returned_view cfg p s)
      | Some hs \<Rightarrow>
          if hs = hooks_called p then Inr (returned_view cfg p s) else Inl HooksOrderError)"

definition commit_render :: "'a props \<Rightarrow> scroll \<Rightarrow> scroll" where
  \<comment> \<open>a render that has returned is committed: its hooks are the instance's, and the ref
      of the list is attached when the list is in what was returned\<close>
  "commit_render p s = s\<lparr>hooks := Some (hooks_called p), listRef := \<not> error_truthy p\<rparr>"

datatype 'a shown = ShownError jsstring | ShownWhenEmpty empty_component | ShownItems "'a list"

definition shown :: "'a view \<Rightarrow> 'a shown" where
  \<comment> \<open>what the view puts on the screen: the list renders its \<open>ListEmptyComponent\<close> when
      its data is empty and its items otherwise\<close>
  "shown v =
     (case v of
        ErrorView e \<Rightarrow> ShownError e
      | ListView d n ec f b \<Rightarrow> if d = [] then ShownWhenEmpty ec else ShownItems d)"


section \<open>What the search screen renders\<close>

datatype 'r content = OwnErrorView jsstring | Presenter "js_error + 'r view"

definition scroll_props :: "'r screen \<Rightarrow> 'r props" where
  \<comment> \<open>the props of lines 191 to 197 of search.tsx\<close>
  "scroll_props s =
     \<lparr>data = results s, numColumns = None, loading_prop = Some (loading s),
      loadingMore = None, error_prop = None, emptyMessage = Some msg_type_to_search,
      ListFooterComponent = False\<rparr>"

definition renderSearchContent :: "layout \<Rightarrow> scroll \<Rightarrow> 'r screen \<Rightarrow> 'r content" where
  \<comment> \<open>the part of \<open>renderSearchContent\<close> below the search bar, lines 186 to 198; \<open>sv\<close> is
      the instance of the presenter it renders\<close>
  "renderSearchContent cfg sv s =
     (case error s of
        None \<Rightarrow> Presenter (CustomScrollView cfg (scroll_props s) sv)
      | Some e \<Rightarrow>
          if truthy e then OwnErrorView e
          else Presenter (CustomScrollView cfg (scroll_props s) sv))"


section \<open>Invariants of the search screen\<close>

fun one_timer :: "nat option \<Rightarrow> (nat \<times> nat \<times> jsstring) list \<Rightarrow> bool" where
  "one_timer ref [] = True"
| "one_timer ref [(h, due, k)] = (ref = Some h \<and> h \<noteq> 0)"
| "one_timer ref (x # y # ys) = False"

definition timer_inv :: "'r screen \<Rightarrow> bool" where
  \<comment> \<open>at most one timeout is pending, and the ref holds its handle\<close>
  "timer_inv s = one_timer (debounceTimer s) (timers s)"

fun unread :: "jsstring option \<Rightarrow> jsstring option \<Rightarrow> bool" where
  "unread None p = False"
| "unread (Some m) p = (truthy m \<and> p = Some page_search)"

definition store_inv :: "'r screen \<Rightarrow> bool" where
  \<comment> \<open>no message for this page is left in the store\<close>
  "store_inv s = (\<not> unread (lastMessage s) (targetPage s))"

fun known_error :: "jsstring option \<Rightarrow> bool" where
  "known_error None = True"
| "known_error (Some e) = (e = msg_no_results \<or> e = msg_search_failed)"

definition error_inv :: "'r screen \<Rightarrow> bool" where
  \<comment> \<open>the error is \<open>null\<close> or one of the two messages\<close>
  "error_inv s = known_error (error s)"

definition screen_inv :: "'r screen \<Rightarrow> bool" where
  "screen_inv s = (timer_inv s \<and> store_inv s \<and> error_inv s)"


section \<open>Predicates and inputs of the properties\<close>

fun results_written :: "'r response \<Rightarrow> 'r list \<Rightarrow> 'r list" where
  \<comment> \<open>the items after a call has settled, from the items before: a response replaces
      them, a failure leaves them\<close>
  "results_written (Resolved rs) old = rs"
| "results_written (Rejected err) old = old"

fun error_written :: "'r response \<Rightarrow> jsstring option \<Rightarrow> jsstring option" where
  \<comment> \<open>the error after a call has settled, from the error before: a response with items
      leaves it, an empty response sets the no-results message, a failure the retry
      message\<close>
  "error_written (Resolved rs) old = (if rs = [] then Some msg_no_results else old)"
| "error_written (Rejected err) old = Some msg_search_failed"

fun typing :: "(jsstring \<times> nat) list \<Rightarrow> 'r screen \<Rightarrow> 'r screen" where
  \<comment> \<open>a sequence of term changes, each followed by a pause\<close>
  "typing [] s = s"
| "typing ((k, d) # ks) s = typing ks (elapse d (setKeyword k s))"

fun typed :: "(jsstring \<times> nat) list \<Rightarrow> 'r event list" where
  \<comment> \<open>the same sequence as events\<close>
  "typed [] = []"
| "typed ((k, d) # ks) = ChangeText k # Elapse d # typed ks"

fun rapid_changes :: "jsstring \<Rightarrow> (jsstring \<times> nat) list \<Rightarrow> bool" where
  \<comment> \<open>every term is not blank and differs from the one before it (\<open>k0\<close> at first), and every
      pause is shorter than the debounce delay\<close>
  "rapid_changes k0 [] = True"
| "rapid_changes k0 ((k, d) # ks) =
     (k \<noteq> k0 \<and> truthy (trim k) \<and> d < DEBOUNCE_DELAY \<and> rapid_changes k ks)"







definition demo_props :: "nat list \<Rightarrow> bool option \<Rightarrow> jsstring option \<Rightarrow> nat props" where
  \<comment> \<open>props with the given items, loading flag and error, and the empty message of the
      search screen\<close>
  "demo_props d l e =
     \<lparr>data = d, numColumns = None, loading_prop = l, loadingMore = None, error_prop = e,
      emptyMessage = Some msg_type_to_search, ListFooterComponent = False\<rparr>"

definition mobile_layout :: layout where
  "mobile_layout = \<lparr>deviceType = [0x006D, 0x006F, 0x0062, 0x0069, 0x006C, 0x0065], columns = 3\<rparr>"


definition scroll_fresh :: scroll where
  \<comment> \<open>an instance before its first render, whose list takes 800 milliseconds over an
      animated scroll\<close>
  "scroll_fresh =
     \<lparr>showScrollToTop = False, listRef = False, firstCardRef = True, hooks = None, clock = 0,
      focus_timers = [], calls = [], animation_ms = 800, animation_end = None\<rparr>"


section \<open>The render of the search screen throws\<close>

lemma render_throws:
  "SearchScreen_render tdz =
     Inl (ReferenceError (if tdz then ''handleSearch'' else ''useCallback''))"
proof (cases tdz)
  case True
  have "SearchScreen_render True = Inl (ReferenceError ''handleSearch'')" by code_simp
  with True show ?thesis by simp
next
  case False
  have "SearchScreen_render False = Inl (ReferenceError ''useCallback'')" by code_simp
  with False show ?thesis by simp
qed

lemma render_with_import_and_var:
  "exec False (''useCallback'' # module_scope) [] SearchScreen_body = Inr ()"
  by code_simp

lemma mount_throws:
  "mount tdz m p = Inl (ReferenceError (if tdz then ''handleSearch'' else ''useCallback''))"
  by (simp add: mount_def render_throws)

lemma launch_throws:
  "launch tdz evs m p = Inl (ReferenceError (if tdz then ''handleSearch'' else ''useCallback''))"
  by (simp add: launch_def mount_throws)


section \<open>Timers and the debounce effect\<close>

lemma timer_inv_iff:
  "timer_inv s \<longleftrightarrow>
     timers s = [] \<or> (\<exists>h due k. timers s = [(h, due, k)] \<and> debounceTimer s = Some h \<and> h \<noteq> 0)"
  by (cases "(debounceTimer s, timers s)" rule: one_timer.cases) (auto simp: timer_inv_def)

lemma timers_same: "timers s = x \<Longrightarrow> s\<lparr>timers := x\<rparr> = s"
  by (cases s) simp

lemma clear_debounce_inv: "timer_inv s \<Longrightarrow> clear_debounce s = s\<lparr>timers := []\<rparr>"
  by (auto simp: timer_inv_iff clear_debounce_def clearTimeout_def timers_same
      split: option.splits)

lemma clear_debounce_idem: "timers s = [] \<Longrightarrow> clear_debounce s = s"
  by (auto simp: clear_debounce_def clearTimeout_def split: option.splits)

lemma keyword_effect_nonblank:
  assumes "timers s = []" "truthy (trim (keyword s))"
  shows "keyword_effect s =
           s\<lparr>loading := True, error := None, last_timer := Suc (last_timer s),
             timers := [(Suc (last_timer s), now s + DEBOUNCE_DELAY, keyword s)],
             debounceTimer := Some (Suc (last_timer s))\<rparr>"
  using assms by (simp add: keyword_effect_def clear_debounce_idem setTimeout_def)

lemma keyword_effect_blank:
  assumes "timers s = []" "\<not> truthy (trim (keyword s))"
  shows "keyword_effect s = s\<lparr>results := [], error := None, loading := False\<rparr>"
  using assms by (simp add: keyword_effect_def clear_debounce_idem)

lemma setKeyword_changed:
  assumes "timer_inv s" "t \<noteq> keyword s"
  shows "setKeyword t s = keyword_effect (s\<lparr>keyword := t, timers := []\<rparr>)"
proof -
  have "timer_inv (s\<lparr>keyword := t\<rparr>)" using assms(1) by (simp add: timer_inv_iff)
  then show ?thesis using assms(2)
    by (simp add: setKeyword_def keyword_cleanup_def clear_debounce_inv)
qed

lemma elapse_no_timers: "timers s = [] \<Longrightarrow> elapse d s = s\<lparr>now := now s + d\<rparr>"
  by (simp add: elapse_def)

lemma elapse_not_due:
  "timers s = [(h, due, k)] \<Longrightarrow> now s + d < due \<Longrightarrow> elapse d s = s\<lparr>now := now s + d\<rparr>"
  by (simp add: elapse_def is_due_def)

lemma elapse_due:
  "timers s = [(h, due, k)] \<Longrightarrow> due \<le> now s + d \<Longrightarrow>
     elapse d s = handleSearch k (Some k) (s\<lparr>now := now s + d, timers := []\<rparr>)"
  by (simp add: elapse_def is_due_def)


section \<open>The invariants hold in every reachable state\<close>

lemma handleSearch_nonblank:
  "truthy (trim k) \<Longrightarrow>
     handleSearch kw (Some k) s =
       s\<lparr>trace := trace s @ [KeyboardDismiss, ApiSearch k], error := None,
         last_request := Suc (last_request s),
         inflight := inflight s @ [(Suc (last_request s), k)]\<rparr>"
  by (simp add: handleSearch_def)

lemma handleSearch_inv: "screen_inv s \<Longrightarrow> screen_inv (handleSearch kw x s)"
  by (simp add: handleSearch_def screen_inv_def timer_inv_def store_inv_def error_inv_def Let_def)

lemma elapse_cases:
  assumes "timer_inv s"
  shows "elapse d s = s\<lparr>now := now s + d\<rparr> \<or>
         (\<exists>k. elapse d s = handleSearch k (Some k) (s\<lparr>now := now s + d, timers := []\<rparr>))"
proof (cases "timers s")
  case Nil
  then show ?thesis by (simp add: elapse_no_timers)
next
  case (Cons x xs)
  with assms obtain h due k where t: "timers s = [(h, due, k)]"
    by (auto simp: timer_inv_iff)
  show ?thesis
  proof (cases "due \<le> now s + d")
    case True
    with t show ?thesis by (auto simp: elapse_due)
  next
    case False
    with t show ?thesis by (simp add: elapse_not_due)
  qed
qed

lemma inv_now: "screen_inv (s\<lparr>now := t\<rparr>) = screen_inv s"
  by (simp add: screen_inv_def timer_inv_def store_inv_def error_inv_def)

lemma inv_no_timers: "screen_inv s \<Longrightarrow> screen_inv (s\<lparr>timers := []\<rparr>)"
  by (simp add: screen_inv_def timer_inv_def store_inv_def error_inv_def)

lemma inv_keyword: "screen_inv (s\<lparr>keyword := t\<rparr>) = screen_inv s"
  by (simp add: screen_inv_def timer_inv_def store_inv_def error_inv_def)

lemma elapse_inv: "screen_inv s \<Longrightarrow> screen_inv (elapse d s)"
  using elapse_cases [of s d]
  by (auto simp: inv_now inv_no_timers handleSearch_inv screen_inv_def [of s])

lemma keyword_effect_inv:
  assumes "screen_inv s" "timers s = []"
  shows "screen_inv (keyword_effect s)"
proof (cases "truthy (trim (keyword s))")
  case True
  with assms show ?thesis
    by (simp add: keyword_effect_nonblank screen_inv_def timer_inv_def store_inv_def
        error_inv_def)
next
  case False
  with assms show ?thesis
    by (simp add: keyword_effect_blank screen_inv_def timer_inv_def store_inv_def
        error_inv_def)
qed

lemma setKeyword_inv: "screen_inv s \<Longrightarrow> screen_inv (setKeyword t s)"
proof (cases "t = keyword s")
  case True
  then show "screen_inv s \<Longrightarrow> ?thesis" by (simp add: setKeyword_def)
next
  case False
  assume i: "screen_inv s"
  then have "setKeyword t s = keyword_effect (s\<lparr>keyword := t, timers := []\<rparr>)"
    using False by (simp add: setKeyword_changed screen_inv_def)
  moreover have "screen_inv (s\<lparr>keyword := t, timers := []\<rparr>)"
    using i by (simp add: inv_no_timers inv_keyword)
  ultimately show ?thesis by (simp add: keyword_effect_inv)
qed

lemma onSearchPress_inv: "screen_inv s \<Longrightarrow> screen_inv (onSearchPress s)"
  by (simp add: onSearchPress_def clear_debounce_inv screen_inv_def [of s] inv_no_timers
      handleSearch_inv)

lemma settle_inv: "screen_inv s \<Longrightarrow> screen_inv (settle resp s)"
  by (simp add: settle_def screen_inv_def timer_inv_def store_inv_def error_inv_def
      split: response.splits)

lemma inv_inflight: "screen_inv (s\<lparr>inflight := x\<rparr>) = screen_inv s"
  by (simp add: screen_inv_def timer_inv_def store_inv_def error_inv_def)

lemma resolve_inv: "screen_inv s \<Longrightarrow> screen_inv (resolve r resp s)"
  by (simp add: resolve_def settle_inv inv_inflight split: option.splits)

lemma setKeyword_store:
  "lastMessage (setKeyword t s) = lastMessage s \<and> targetPage (setKeyword t s) = targetPage s"
  by (simp add: setKeyword_def keyword_effect_def keyword_cleanup_def clear_debounce_def
      clearTimeout_def setTimeout_def Let_def split: option.splits)

lemma remote_effect_inv:
  assumes "timer_inv s" "error_inv s"
  shows "screen_inv (remote_effect s)"
proof (cases "\<exists>m. lastMessage s = Some m \<and> truthy m \<and> targetPage s = Some page_search")
  case True
  then obtain m where m: "lastMessage s = Some m" "truthy m" "targetPage s = Some page_search"
    by blast
  let ?s1 = "clearMessage (s\<lparr>trace := trace s @ [LogDebugRemoteInput m]\<rparr>)"
  have "screen_inv ?s1"
    using assms by (simp add: clearMessage_def screen_inv_def timer_inv_def store_inv_def
        error_inv_def)
  then have "screen_inv (setKeyword (split_first 0x005F m) ?s1)"
    by (rule setKeyword_inv)
  then show ?thesis using m by (simp add: remote_effect_def)
next
  case False
  then have "remote_effect s = s"
    by (auto simp: remote_effect_def split: option.splits)
  moreover have "store_inv s" using False
    by (cases "lastMessage s") (auto simp: store_inv_def)
  ultimately show ?thesis using assms by (simp add: screen_inv_def)
qed

lemma store_update_inv: "screen_inv s \<Longrightarrow> screen_inv (store_update m p s)"
  by (simp add: store_update_def remote_effect_inv screen_inv_def [of s] timer_inv_def
      error_inv_def)

lemma step_inv: "screen_inv s \<Longrightarrow> screen_inv (step e s)"
  by (cases e) (simp_all add: setKeyword_inv onSearchPress_inv elapse_inv resolve_inv
      store_update_inv)

lemma first_commit_inv: "screen_inv (first_commit m p)"
proof -
  let ?s0 = "\<lparr>keyword = [], results = [], loading = False, error = None,
        debounceTimer = None, lastMessage = m, targetPage = p, now = 0, last_timer = 0,
        timers = [], last_request = 0, inflight = [], trace = []\<rparr> :: 'a screen"
  have "keyword_effect ?s0 = ?s0"
    by (simp add: keyword_effect_def clear_debounce_def truthy_def trim_def)
  then show ?thesis
    by (simp add: first_commit_def remote_effect_inv timer_inv_def error_inv_def)
qed

lemma run_snoc: "run (evs @ [e]) s = step e (run evs s)"
  by (simp add: run_def)

lemma run_inv: "screen_inv s \<Longrightarrow> screen_inv (run evs s)"
  by (induction evs rule: rev_induct) (simp_all add: run_snoc step_inv, simp add: run_def)

lemma reachable_inv: "screen_inv (run evs (first_commit m p))"
  by (simp add: run_inv first_commit_inv)


section \<open>Settling of remote calls\<close>


lemma resolve_pending:
  "map_of (inflight s) r = Some t \<Longrightarrow>
     resolve r resp s = settle resp (s\<lparr>inflight := filter (\<lambda>(i, t). i \<noteq> r) (inflight s)\<rparr>)"
  by (simp add: resolve_def)

lemma results_settle: "results (settle resp s) = results_written resp (results s)"
  by (cases resp) (auto simp: settle_def)

lemma error_settle: "error (settle resp s) = error_written resp (error s)"
  by (cases resp) (auto simp: settle_def)

lemma loading_settle: "\<not> loading (settle resp s)"
  by (cases resp) (auto simp: settle_def)


lemma resolve_fields:
  assumes "map_of (inflight s) r = Some t"
  shows "results (resolve r resp s) = results_written resp (results s)"
    and "error (resolve r resp s) = error_written resp (error s)"
    and "\<not> loading (resolve r resp s)"
  using assms by (simp_all add: resolve_pending results_settle error_settle loading_settle)






lemma rejected_call_never_clears:
  "map_of (inflight s) r = Some t \<Longrightarrow> results (resolve r (Rejected err) s) = results s"
  by (simp add: resolve_fields)


lemma list_when_no_error:
  assumes "error_prop p = None \<or> error_prop p = Some []"
  shows "returned_view cfg p s =
     ListView (data p)
       (case numColumns p of Some n \<Rightarrow> if n \<noteq> 0 then n else columns cfg | None \<Rightarrow> columns cfg)
       (if (case loading_prop p of Some b \<Rightarrow> b | None \<Rightarrow> False) then ActivityIndicator
        else CenterText (case emptyMessage p of Some m \<Rightarrow> m | None \<Rightarrow> msg_no_content))
       (if ListFooterComponent p then GivenFooter
        else if (case loadingMore p of Some b \<Rightarrow> b | None \<Rightarrow> False) then FooterIndicator
        else NoFooter)
       (deviceType cfg \<noteq> device_tv \<and> showScrollToTop s)"
  using assms by (auto simp: returned_view_def Let_def truthy_def)






section \<open>Debounce, clearing and explicit submit\<close>

lemma setKeyword_nonblank:
  assumes "timer_inv s" "t \<noteq> keyword s" "truthy (trim t)"
  shows "setKeyword t s =
           s\<lparr>keyword := t, loading := True, error := None,
             last_timer := Suc (last_timer s),
             timers := [(Suc (last_timer s), now s + DEBOUNCE_DELAY, t)],
             debounceTimer := Some (Suc (last_timer s))\<rparr>"
  using assms by (simp add: setKeyword_changed keyword_effect_nonblank)

lemma setKeyword_blank:
  assumes "timer_inv s" "t \<noteq> keyword s" "\<not> truthy (trim t)"
  shows "setKeyword t s =
           s\<lparr>keyword := t, timers := [], results := [], error := None, loading := False\<rparr>"
  using assms by (simp add: setKeyword_changed keyword_effect_blank)

lemma api_calls_trace: "trace s' = trace s \<Longrightarrow> api_calls s' = api_calls s"
  by (simp add: api_calls_def)

lemma short_pause:
  assumes "timer_inv s" "k \<noteq> keyword s" "truthy (trim k)" "d < DEBOUNCE_DELAY"
  shows "elapse d (setKeyword k s) = (setKeyword k s)\<lparr>now := now s + d\<rparr>"
proof -
  have "timers (setKeyword k s) = [(Suc (last_timer s), now s + DEBOUNCE_DELAY, k)]"
    and "now (setKeyword k s) = now s"
    using assms(1-3) by (simp_all add: setKeyword_nonblank)
  then show ?thesis using assms(4) elapse_not_due [of "setKeyword k s" _ _ _ d]
    by simp
qed

lemma long_pause:
  assumes "timer_inv s" "k \<noteq> keyword s" "truthy (trim k)" "DEBOUNCE_DELAY \<le> d"
  shows "elapse d (setKeyword k s) =
           handleSearch k (Some k) ((setKeyword k s)\<lparr>now := now s + d, timers := []\<rparr>)"
proof -
  have "timers (setKeyword k s) = [(Suc (last_timer s), now s + DEBOUNCE_DELAY, k)]"
    and "now (setKeyword k s) = now s"
    using assms(1-3) by (simp_all add: setKeyword_nonblank)
  then show ?thesis using assms(4) elapse_due [of "setKeyword k s" _ _ _ d]
    by simp
qed

lemma trace_setKeyword: "trace (setKeyword t s) = trace s"
  by (simp add: setKeyword_def keyword_effect_def keyword_cleanup_def clear_debounce_def
      clearTimeout_def setTimeout_def Let_def split: option.splits)

lemma keyword_setKeyword: "keyword (setKeyword t s) = t"
  by (simp add: setKeyword_def keyword_effect_def keyword_cleanup_def clear_debounce_def
      clearTimeout_def setTimeout_def Let_def split: option.splits)

lemma typing_rapid:
  "screen_inv s \<Longrightarrow> rapid_changes (keyword s) ks \<Longrightarrow>
     screen_inv (typing ks s) \<and> trace (typing ks s) = trace s"
proof (induction ks arbitrary: s)
  case Nil
  then show ?case by simp
next
  case (Cons x ks)
  obtain k d where x: "x = (k, d)" by (cases x)
  let ?s = "elapse d (setKeyword k s)"
  from Cons.prems x have r: "k \<noteq> keyword s" "truthy (trim k)" "d < DEBOUNCE_DELAY"
    "rapid_changes k ks" by simp_all
  have t: "timer_inv s" using Cons.prems(1) by (simp add: screen_inv_def)
  have e: "?s = (setKeyword k s)\<lparr>now := now s + d\<rparr>"
    using t r(1-3) by (rule short_pause)
  have i: "screen_inv ?s" using Cons.prems(1) by (simp add: elapse_inv setKeyword_inv)
  have kw: "keyword ?s = k" using e by (simp add: keyword_setKeyword)
  have tr: "trace ?s = trace s" using e by (simp add: trace_setKeyword)
  have "screen_inv (typing ks ?s) \<and> trace (typing ks ?s) = trace ?s"
    using i r(4) kw by (intro Cons.IH) simp_all
  then show ?case using x tr by simp
qed

text \<open>
  What the callbacks do once the component renders. In a state with at most one timeout
  pending, after a burst of changes to terms that are not blank, each within the debounce
  delay of the one before, and a last such change to \<open>k\<close>: no remote call has been made
  during the burst; at most one timeout is pending after it, and after the last change
  the one pending timeout is the one of \<open>k\<close>, due a full delay after that change; and
  after a trailing pause \<open>d\<close> the calls made since the burst began are none while \<open>d\<close>
  is below the delay and exactly the one call with \<open>k\<close> once \<open>d\<close> has reached it.
\<close>

lemma debounce_when_rendered:
  assumes "screen_inv s"
    and "rapid_changes (keyword s) ks"
    and "k \<noteq> keyword (typing ks s)"
    and "truthy (trim k)"
  shows "api_calls (typing ks s) = api_calls s \<and>
         length (timers (typing ks s)) \<le> 1 \<and>
         (\<exists>h. timers (setKeyword k (typing ks s)) =
                [(h, now (typing ks s) + DEBOUNCE_DELAY, k)]) \<and>
         api_calls (elapse d (setKeyword k (typing ks s))) =
           api_calls s @ (if DEBOUNCE_DELAY \<le> d then [k] else [])"
proof -
  let ?b = "typing ks s"
  have b: "screen_inv ?b \<and> trace ?b = trace s"
    using assms(1,2) by (rule typing_rapid)
  then have b1: "screen_inv ?b" and b2: "trace ?b = trace s" by blast+
  have t: "timer_inv ?b" using b1 unfolding screen_inv_def by blast
  have c1: "api_calls ?b = api_calls s" using b2 by (rule api_calls_trace)
  have c2: "\<exists>h. timers (setKeyword k ?b) = [(h, now ?b + DEBOUNCE_DELAY, k)]"
    using t assms(3,4) by (simp add: setKeyword_nonblank)
  have c3: "api_calls (elapse d (setKeyword k ?b)) =
              api_calls s @ (if DEBOUNCE_DELAY \<le> d then [k] else [])"
  proof (cases "DEBOUNCE_DELAY \<le> d")
    case True
    with t assms(3,4) have "elapse d (setKeyword k ?b) =
        handleSearch k (Some k) ((setKeyword k ?b)\<lparr>now := now ?b + d, timers := []\<rparr>)"
      by (simp add: long_pause)
    then have "trace (elapse d (setKeyword k ?b)) = trace ?b @ [KeyboardDismiss, ApiSearch k]"
      using assms(4) by (simp add: handleSearch_nonblank trace_setKeyword)
    then show ?thesis using True b2 by (simp add: api_calls_def)
  next
    case False
    with t assms(3,4) have "elapse d (setKeyword k ?b) = (setKeyword k ?b)\<lparr>now := now ?b + d\<rparr>"
      by (simp add: short_pause)
    then have "trace (elapse d (setKeyword k ?b)) = trace ?b"
      by (simp add: trace_setKeyword)
    then show ?thesis using False b2 by (simp add: api_calls_def)
  qed
  have c0: "length (timers ?b) \<le> 1"
    using t by (auto simp: timer_inv_iff)
  from c1 c0 c2 c3 show ?thesis by blast
qed

text \<open>
  Likewise, a change of the term to an empty or whitespace-only string leaves the screen
  idle (no results, no error, not loading), leaves no timeout pending and makes no remote
  call, neither at once nor after any pause.
\<close>

lemma blank_term_when_rendered:
  assumes "timer_inv s" and "t \<noteq> keyword s" and "\<not> truthy (trim t)"
  shows "results (setKeyword t s) = [] \<and>
         error (setKeyword t s) = None \<and>
         \<not> loading (setKeyword t s) \<and>
         timers (setKeyword t s) = [] \<and>
         trace (setKeyword t s) = trace s \<and>
         api_calls (elapse d (setKeyword t s)) = api_calls s"
proof -
  have e: "setKeyword t s =
      s\<lparr>keyword := t, timers := [], results := [], error := None, loading := False\<rparr>"
    using assms by (rule setKeyword_blank)
  have "timers (setKeyword t s) = []" using e by simp
  then have "elapse d (setKeyword t s) = (setKeyword t s)\<lparr>now := now (setKeyword t s) + d\<rparr>"
    by (rule elapse_no_timers)
  then have "trace (elapse d (setKeyword t s)) = trace s"
    by (simp add: trace_setKeyword)
  then have "api_calls (elapse d (setKeyword t s)) = api_calls s"
    by (rule api_calls_trace)
  then show ?thesis using e by simp
qed

lemma onSearchPress_reachable:
  "timer_inv s \<Longrightarrow>
     onSearchPress s = handleSearch (keyword s) (Some (keyword s)) (s\<lparr>timers := []\<rparr>)"
  by (simp add: onSearchPress_def clear_debounce_inv)

text \<open>
  And the explicit submit leaves no timeout pending and calls \<open>handleSearch\<close> with the
  current term at once: the clock has not moved, the keyboard is dismissed and, for a term
  that is not blank, the remote call with that term has been made and is pending. No
  later pause makes a further call.
\<close>

lemma submit_when_rendered:
  assumes "timer_inv s"
  shows "timers (onSearchPress s) = [] \<and>
   now (onSearchPress s) = now s \<and>
   trace (onSearchPress s) =
     trace s @
       (if truthy (trim (keyword s)) then [KeyboardDismiss, ApiSearch (keyword s)]
        else [KeyboardDismiss]) \<and>
   inflight (onSearchPress s) =
     inflight s @
       (if truthy (trim (keyword s)) then [(Suc (last_request s), keyword s)] else []) \<and>
   api_calls (elapse d (onSearchPress s)) = api_calls (onSearchPress s)"
proof -
  have e: "onSearchPress s = handleSearch (keyword s) (Some (keyword s)) (s\<lparr>timers := []\<rparr>)"
    using assms by (rule onSearchPress_reachable)
  have n: "timers (onSearchPress s) = []"
    unfolding e by (simp add: handleSearch_def Let_def)
  then have "elapse d (onSearchPress s) =
      (onSearchPress s)\<lparr>now := now (onSearchPress s) + d\<rparr>"
    by (rule elapse_no_timers)
  then have "trace (elapse d (onSearchPress s)) = trace (onSearchPress s)"
    by simp
  then have a: "api_calls (elapse d (onSearchPress s)) = api_calls (onSearchPress s)"
    by (rule api_calls_trace)
  have r: "now (onSearchPress s) = now s \<and>
   trace (onSearchPress s) = trace s @
       (if truthy (trim (keyword s)) then [KeyboardDismiss, ApiSearch (keyword s)]
        else [KeyboardDismiss]) \<and>
   inflight (onSearchPress s) = inflight s @
       (if truthy (trim (keyword s)) then [(Suc (last_request s), keyword s)] else [])"
    unfolding e by (simp add: handleSearch_def Let_def)
  from n r a show ?thesis by blast
qed

lemma run_typed: "run (typed ks) s = typing ks s"
  by (induction ks arbitrary: s) (auto simp: run_def)

text \<open>
  C2. The component as the file has it never gets as far as its debounce. Its render
  throws a ReferenceError: at line 70 \<open>handleSearch\<close> is read before the \<open>const\<close> of
  line 90 has run, and where the build has turned \<open>const\<close> into \<open>var\<close>, line 90 calls
  \<open>useCallback\<close>, which line 1 does not import. So whatever terms are typed and however
  long the pauses, no timeout is scheduled and no remote call is made; the one call with
  the final term never fires.
\<close>

theorem typing_fires_no_call:
  "launch tdz (typed ks) m p =
     Inl (ReferenceError (if tdz then ''handleSearch'' else ''useCallback'')) \<and>
   calls_made (launch tdz (typed ks) m p) = []"
  by (simp add: launch_throws calls_made_def)


text \<open>
  C6. For the same reason \<open>onSearchPress\<close> is never attached to a button or to the
  keyboard: the \<open>handleSearch\<close> it calls is never created, and a submit, after whatever
  events, makes no search.
\<close>

theorem submit_finds_no_component:
  "SearchScreen_render tdz =
     Inl (ReferenceError (if tdz then ''handleSearch'' else ''useCallback'')) \<and>
   launch tdz (evs @ [SearchPress]) m p =
     Inl (ReferenceError (if tdz then ''handleSearch'' else ''useCallback'')) \<and>
   calls_made (launch tdz (evs @ [SearchPress]) m p) = []"
  by (simp add: launch_throws render_throws calls_made_def)


section \<open>Remote input\<close>














section \<open>The presenter\<close>

lemma render_in_order:
  "hooks s = None \<or> hooks s = Some (hooks_called p) \<Longrightarrow>
     CustomScrollView cfg p s = Inr (returned_view cfg p s)"
  by (auto simp: CustomScrollView_def)

lemma error_view_when_truthy:
  "error_prop p = Some e \<Longrightarrow> truthy e \<Longrightarrow> returned_view cfg p s = ErrorView e"
  by (simp add: returned_view_def Let_def)

text \<open>
  C8 (as amended). For every input of the presenter at its first render, or at a later
  render in which the error is truthy exactly when it was at the render before (so that
  the function runs the hooks it ran then): if the error is a string that is not empty,
  it renders only the error view, whatever the items and the loading flag; otherwise (the
  error is \<open>null\<close> or the empty string), if the items are empty it shows the loading
  indicator when loading is true and the supplied empty message (or the default one) when
  loading is false or left out.
\<close>

theorem presenter_error_then_loading_then_empty:
  assumes "hooks s = None \<or> hooks s = Some (hooks_called p)"
  shows
  "(error_prop p = Some e \<and> truthy e \<longrightarrow>
      CustomScrollView cfg p s = Inr (ErrorView e) \<and>
      map_sum id shown (CustomScrollView cfg p s) = Inr (ShownError e)) \<and>
   ((error_prop p = None \<or> error_prop p = Some []) \<and> data p = [] \<longrightarrow>
      (loading_prop p = Some True \<longrightarrow>
         map_sum id shown (CustomScrollView cfg p s) = Inr (ShownWhenEmpty ActivityIndicator)) \<and>
      (loading_prop p \<noteq> Some True \<longrightarrow>
         map_sum id shown (CustomScrollView cfg p s) =
           Inr (ShownWhenEmpty (CenterText
             (case emptyMessage p of Some m \<Rightarrow> m | None \<Rightarrow> msg_no_content)))))"
proof (intro conjI impI)
  have r: "CustomScrollView cfg p s = Inr (returned_view cfg p s)"
    using assms by (rule render_in_order)
  {
    assume "error_prop p = Some e \<and> truthy e"
    then have "returned_view cfg p s = ErrorView e"
      by (simp add: error_view_when_truthy)
    then show "CustomScrollView cfg p s = Inr (ErrorView e)"
      and "map_sum id shown (CustomScrollView cfg p s) = Inr (ShownError e)"
      using r by (simp_all add: shown_def)
  }
  {
    assume a: "(error_prop p = None \<or> error_prop p = Some []) \<and> data p = []"
      and l: "loading_prop p = Some True"
    from a have "error_prop p = None \<or> error_prop p = Some []" by blast
    then show "map_sum id shown (CustomScrollView cfg p s) = Inr (ShownWhenEmpty ActivityIndicator)"
      using a l r by (simp add: list_when_no_error shown_def)
  }
  {
    assume a: "(error_prop p = None \<or> error_prop p = Some []) \<and> data p = []"
      and l: "loading_prop p \<noteq> Some True"
    from a have "error_prop p = None \<or> error_prop p = Some []" by blast
    moreover have "\<not> (case loading_prop p of Some b \<Rightarrow> b | None \<Rightarrow> False)"
      using l by (cases "loading_prop p") auto
    ultimately show "map_sum id shown (CustomScrollView cfg p s) =
        Inr (ShownWhenEmpty (CenterText
          (case emptyMessage p of Some m \<Rightarrow> m | None \<Rightarrow> msg_no_content)))"
      using a r by (simp add: list_when_no_error shown_def)
  }
qed

theorem presenter_error_then_loading_then_empty_witness:
  "CustomScrollView mobile_layout (demo_props [1] (Some True) (Some msg_search_failed)) scroll_fresh
     = Inr (ErrorView msg_search_failed) \<and>
   map_sum id shown (CustomScrollView mobile_layout
       (demo_props [1] (Some True) (Some msg_search_failed)) scroll_fresh)
     = Inr (ShownError msg_search_failed) \<and>
   map_sum id shown (CustomScrollView mobile_layout (demo_props [] (Some True) None)
       (commit_render (demo_props [1] (Some False) None) scroll_fresh))
     = Inr (ShownWhenEmpty ActivityIndicator) \<and>
   map_sum id shown (CustomScrollView mobile_layout (demo_props [] (Some False) None) scroll_fresh)
     = Inr (ShownWhenEmpty (CenterText msg_type_to_search))"
proof -
  let ?c = "commit_render (demo_props [1] (Some False) None) scroll_fresh"
  have h0: "hooks scroll_fresh = None \<or>
            hooks scroll_fresh = Some (hooks_called (demo_props [1] (Some True) (Some msg_search_failed)))"
    by (simp add: scroll_fresh_def)
  have h1: "hooks ?c = None \<or> hooks ?c = Some (hooks_called (demo_props [] (Some True) None))"
    by (simp add: commit_render_def hooks_called_def error_truthy_def demo_props_def)
  have h2: "hooks scroll_fresh = None \<or>
            hooks scroll_fresh = Some (hooks_called (demo_props [] (Some False) None))"
    by (simp add: scroll_fresh_def)
  have a: "error_prop (demo_props [1] (Some True) (Some msg_search_failed)) = Some msg_search_failed
      \<and> truthy msg_search_failed"
    by (simp add: demo_props_def truthy_def msg_search_failed_def)
  have b: "(error_prop (demo_props [] (Some True) None) = None \<or>
            error_prop (demo_props [] (Some True) None) = Some []) \<and>
           data (demo_props [] (Some True) None) = []"
    by (simp add: demo_props_def)
  have b': "loading_prop (demo_props [] (Some True) None) = Some True"
    by (simp add: demo_props_def)
  have c: "(error_prop (demo_props [] (Some False) None) = None \<or>
            error_prop (demo_props [] (Some False) None) = Some []) \<and>
           data (demo_props [] (Some False) None) = []"
    by (simp add: demo_props_def)
  have c': "loading_prop (demo_props [] (Some False) None) \<noteq> Some True"
    by (simp add: demo_props_def)
  have m: "(case emptyMessage (demo_props [] (Some False) None) of Some m \<Rightarrow> m
            | None \<Rightarrow> msg_no_content) = msg_type_to_search"
    by (simp add: demo_props_def)
  from presenter_error_then_loading_then_empty [OF h0, of msg_search_failed mobile_layout] a
  have 1: "CustomScrollView mobile_layout (demo_props [1] (Some True) (Some msg_search_failed))
             scroll_fresh = Inr (ErrorView msg_search_failed) \<and>
           map_sum id shown (CustomScrollView mobile_layout
             (demo_props [1] (Some True) (Some msg_search_failed)) scroll_fresh)
             = Inr (ShownError msg_search_failed)"
    by blast
  from presenter_error_then_loading_then_empty [OF h1, of "[]" mobile_layout] b b'
  have 2: "map_sum id shown (CustomScrollView mobile_layout (demo_props [] (Some True) None) ?c)
     = Inr (ShownWhenEmpty ActivityIndicator)"
    by blast
  from presenter_error_then_loading_then_empty [OF h2, of "[]" mobile_layout] c c'
  have 3: "map_sum id shown (CustomScrollView mobile_layout (demo_props [] (Some False) None)
       scroll_fresh)
     = Inr (ShownWhenEmpty (CenterText (case emptyMessage (demo_props [] (Some False) None) of
         Some m \<Rightarrow> m | None \<Rightarrow> msg_no_content)))"
    by blast
  from 1 2 3 show ?thesis unfolding m by blast
qed

text \<open>
  The claim C8 fails as stated, twice. The empty string is an error that is not \<open>null\<close>,
  and with it the presenter renders the list and its items, not the error view. And a
  mounted presenter that has rendered its list and is then given an error renders
  nothing: the function returns at line 77 before the hook of line 88, and React throws
  over the hooks that are missing.
\<close>

theorem empty_error_string_renders_list:
  "map_sum id shown
     (CustomScrollView mobile_layout (demo_props [1] (Some True) (Some [])) scroll_fresh)
     = Inr (ShownItems [1]) \<and>
   CustomScrollView mobile_layout (demo_props [1] (Some True) None) scroll_fresh =
     Inr (returned_view mobile_layout (demo_props [1] (Some True) None) scroll_fresh) \<and>
   CustomScrollView mobile_layout (demo_props [1] (Some True) (Some msg_search_failed))
     (commit_render (demo_props [1] (Some True) None) scroll_fresh) = Inl HooksOrderError"
  by (simp add: CustomScrollView_def returned_view_def demo_props_def shown_def truthy_def
      Let_def commit_render_def hooks_called_def error_truthy_def scroll_fresh_def
      msg_search_failed_def)






lemma truthy_known_error: "error_inv s \<Longrightarrow> error s = Some e \<Longrightarrow> truthy e"
  by (auto simp: error_inv_def truthy_def msg_no_results_def msg_search_failed_def)

lemma hooks_of_screen: "hooks_called (scroll_props s) = hooks_called (scroll_props s')"
  by (simp add: hooks_called_def error_truthy_def scroll_props_def)

text \<open>
  C10. In every state the search screen reaches, the props it builds for the presenter
  carry \<open>error = null\<close>, so the presenter never takes its error branch: its render gives
  the list, and it could throw only in an instance whose last render ran other hooks,
  which no render under this screen does since all of them run the same hooks. The screen
  renders either the presenter or, when there is a search error, its own error view with
  that error.
\<close>

theorem search_screen_never_reaches_presenter_error_branch:
  "error_prop (scroll_props (run evs (first_commit m p))) = None \<and>
   (case CustomScrollView cfg (scroll_props (run evs (first_commit m p))) sv of
      Inr v \<Rightarrow> \<not> is_ErrorView v
    | Inl e \<Rightarrow> hooks sv \<noteq> None \<and>
               hooks sv \<noteq> Some (hooks_called (scroll_props (run evs (first_commit m p))))) \<and>
   (case CustomScrollView cfg (scroll_props (run evs (first_commit m p)))
           (commit_render (scroll_props (run evs' (first_commit m' p'))) sv) of
      Inr v \<Rightarrow> \<not> is_ErrorView v
    | Inl e \<Rightarrow> False) \<and>
   (case error (run evs (first_commit m p)) of
      None \<Rightarrow> renderSearchContent cfg sv (run evs (first_commit m p)) =
                Presenter (CustomScrollView cfg (scroll_props (run evs (first_commit m p))) sv)
    | Some e \<Rightarrow> renderSearchContent cfg sv (run evs (first_commit m p)) = OwnErrorView e)"
proof -
  let ?s = "run evs (first_commit m p)"
  let ?s' = "run evs' (first_commit m' p')"
  have n: "error_prop (scroll_props ?s) = None" by (simp add: scroll_props_def)
  then have v: "\<not> is_ErrorView (returned_view cfg (scroll_props ?s) x)" for x
    by (simp add: list_when_no_error)
  have l: "case CustomScrollView cfg (scroll_props ?s) sv of
      Inr v \<Rightarrow> \<not> is_ErrorView v
    | Inl e \<Rightarrow> hooks sv \<noteq> None \<and> hooks sv \<noteq> Some (hooks_called (scroll_props ?s))"
    by (cases "hooks sv") (auto simp: CustomScrollView_def v)
  have "hooks (commit_render (scroll_props ?s') sv) = Some (hooks_called (scroll_props ?s))"
    by (simp add: commit_render_def hooks_of_screen [of ?s' ?s])
  then have "CustomScrollView cfg (scroll_props ?s) (commit_render (scroll_props ?s') sv) =
      Inr (returned_view cfg (scroll_props ?s) (commit_render (scroll_props ?s') sv))"
    by (simp add: render_in_order)
  then have c: "case CustomScrollView cfg (scroll_props ?s)
           (commit_render (scroll_props ?s') sv) of
      Inr v \<Rightarrow> \<not> is_ErrorView v
    | Inl e \<Rightarrow> False"
    by (simp add: v)
  have "screen_inv ?s" by (rule reachable_inv)
  then have e: "error_inv ?s" unfolding screen_inv_def by blast
  have r: "case error ?s of
      None \<Rightarrow> renderSearchContent cfg sv ?s = Presenter (CustomScrollView cfg (scroll_props ?s) sv)
    | Some e \<Rightarrow> renderSearchContent cfg sv ?s = OwnErrorView e"
  proof (cases "error ?s")
    case None
    then show ?thesis by (simp add: renderSearchContent_def)
  next
    case (Some x)
    with e have "truthy x" by (rule truthy_known_error)
    with Some show ?thesis by (simp add: renderSearchContent_def)
  qed
  from n l c r show ?thesis by blast
qed

end
